theory Spec2Isabelle
  imports Complex_Main
begin

section \<open>Platform values\<close>

text \<open>
  The weather dashboard (the module that declares \<open>loadPersistedState\<close>,
  \<open>addToSearchHistory\<close>, \<open>addLogEntry\<close>, \<open>displayProgressiveInsights\<close>) is modelled
  with explicit state passing. Exceptions of the platform are values of \<open>exn\<close>.

  A JavaScript string is a \<open>string\<close>: its text in a fixed one-to-one encoding
  (UTF-8 in the examples). The module concatenates strings, compares them and tests
  them for emptiness, which do not depend on the encoding, and it calls
  \<open>String.prototype.toLowerCase\<close>. That method is a parameter, written
  \<open>toLowerCase\<close>, of every function whose source calls it: what is proved about
  them holds for every lower-casing, the one of the language among them.
\<close>

datatype exn = SyntaxError | TypeError | SecurityError | QuotaExceededError | Rejected

datatype json =
    JNull
  | JBool bool
  | JNumber real
  | JString string
  | JArray "json list"
  | JObject "(string \<times> json) list"

text \<open>
  What the module takes from the JavaScript platform at one call: \<open>JSON.parse\<close>
  (\<open>Inl\<close> when it throws), \<open>JSON.stringify\<close>, the conversion of a number in a template
  literal, \<open>Date.now()\<close> and \<open>new Date().toLocaleTimeString()\<close>.
\<close>

record platform =
  JSON_parse :: "string \<Rightarrow> exn + json"
  JSON_stringify :: "json \<Rightarrow> string"
  Number_toString :: "int \<Rightarrow> string"
  Date_now :: int
  toLocaleTimeString :: string

section \<open>Local storage\<close>

text \<open>
  \<open>localStorage\<close>: the stored items, whether reading is permitted (\<open>getItem\<close> throws
  otherwise) and which writes the store accepts (\<open>setItem\<close> throws on the others, the
  quota being the usual cause). A refused write leaves the items as they were.
\<close>

record storage =
  items :: "string \<rightharpoonup> string"
  readable :: bool
  accepts :: "string \<Rightarrow> string \<Rightarrow> bool"

definition getItem :: "storage \<Rightarrow> string \<Rightarrow> exn + string option" where
  "getItem ls k = (if readable ls then Inr (items ls k) else Inl SecurityError)"

definition setItem :: "storage \<Rightarrow> string \<Rightarrow> string \<Rightarrow> exn + storage" where
  "setItem ls k v =
     (if accepts ls k v then Inr (ls\<lparr>items := (items ls)(k \<mapsto> v)\<rparr>)
      else Inl QuotaExceededError)"

section \<open>Persisted state\<close>

text \<open>
  \<open>FavoriteLocation\<close> and \<open>SearchHistoryEntry\<close>. Both interfaces have a \<open>location\<close>
  field; it is declared once, in a record that both extend.
\<close>

record Located =
  location :: string

record FavoriteLocation = Located +
  latitude :: real
  longitude :: real
  addedAt :: int

record SearchHistoryEntry = Located +
  timestamp :: int

text \<open>
  \<open>PersistedWeatherState\<close>. The element types are parameters: the state the module
  builds itself holds \<open>FavoriteLocation\<close> and \<open>SearchHistoryEntry\<close> records, while
  the state read back from storage holds whatever JSON values were stored, since the
  cast \<open>JSON.parse(stored) as PersistedWeatherState\<close> checks nothing.
  \<open>lastLocation\<close> is \<open>None\<close> for \<open>undefined\<close>.
\<close>

record ('f, 'h, 'l) PersistedWeatherState =
  favorites :: "'f list"
  searchHistory :: "'h list"
  lastLocation :: "'l option"

type_synonym weather_state = "(FavoriteLocation, SearchHistoryEntry, string) PersistedWeatherState"
type_synonym stored_state = "(json, json, json) PersistedWeatherState"

datatype console_level = CLog | CInfo | CWarn | CError
datatype log_level = LInfo | LWarning | LError

record log_entry =
  level :: console_level
  time :: string
  message :: string

record host_log =
  hl_level :: log_level
  hl_data :: string
  hl_logger :: string

text \<open>
  The module-level variables, the console, what was sent to the host and the storage.
  \<open>hostConnected\<close> says whether \<open>app.sendLog\<close> resolves. DOM updates are not part
  of the model.
\<close>

record app =
  viewUUID :: "string option"
  persistedState :: weather_state
  localStorage :: storage
  console :: "(console_level \<times> string) list"
  hostConnected :: bool
  hostLog :: "host_log list"
  logEntries :: "log_entry list"
  isForecastVisible :: bool
  isLogExpanded :: bool
  sizeChanged :: "int list"

definition defaultState :: "('f, 'h, 'l) PersistedWeatherState" where
  "defaultState = \<lparr>favorites = [], searchHistory = [], lastLocation = None\<rparr>"

text \<open>\<open>!viewUUID\<close>: true for \<open>null\<close> and for the empty string.\<close>

definition noViewUUID :: "string option \<Rightarrow> bool" where
  "noViewUUID u = (case u of None \<Rightarrow> True | Some s \<Rightarrow> s = [])"

definition storageKey :: "string \<Rightarrow> string" where
  "storageKey u = ''weather-state-'' @ u"

text \<open>
  Reading one of the three properties \<open>favorites\<close>, \<open>searchHistory\<close>,
  \<open>lastLocation\<close> of a parsed value: \<open>null\<close> throws a TypeError, an object gives its
  own property, and a number, string, boolean or array has none of the three
  (\<open>None\<close> is \<open>undefined\<close>).
\<close>

fun getProp :: "json \<Rightarrow> string \<Rightarrow> exn + json option" where
  "getProp JNull k = Inl TypeError"
| "getProp (JObject kvs) k = Inr (map_of kvs k)"
| "getProp v k = Inr None"

text \<open>\<open>Array.isArray(v) ? v : []\<close>\<close>

fun arrayOrEmpty :: "json option \<Rightarrow> json list" where
  "arrayOrEmpty (Some (JArray xs)) = xs"
| "arrayOrEmpty v = []"

text \<open>The body of the \<open>try\<close> block of \<open>loadPersistedState\<close>, for a view identifier \<open>u\<close>.\<close>

definition loadTry :: "platform \<Rightarrow> storage \<Rightarrow> string \<Rightarrow> exn + stored_state" where
  "loadTry env ls u =
     (case getItem ls (storageKey u) of
        Inl e \<Rightarrow> Inl e
      | Inr stored \<Rightarrow>
          (case stored of
             None \<Rightarrow> Inr defaultState
           | Some s \<Rightarrow>
               if s = [] then Inr defaultState
               else
                 (case JSON_parse env s of
                    Inl e \<Rightarrow> Inl e
                  | Inr state \<Rightarrow>
                      (case getProp state ''favorites'' of
                         Inl e \<Rightarrow> Inl e
                       | Inr fv \<Rightarrow>
                           (case getProp state ''searchHistory'' of
                              Inl e \<Rightarrow> Inl e
                            | Inr sh \<Rightarrow>
                                (case getProp state ''lastLocation'' of
                                   Inl e \<Rightarrow> Inl e
                                 | Inr ll \<Rightarrow>
                                     Inr \<lparr>favorites = arrayOrEmpty fv,
                                          searchHistory = arrayOrEmpty sh,
                                          lastLocation = ll\<rparr>))))))"

text \<open>
  \<open>loadPersistedState\<close> reads the variables \<open>viewUUID\<close> and \<open>localStorage\<close>. It
  returns the state together with the lines it wrote to the console; the \<open>catch\<close>
  clause turns every exception of the body into the default state and one warning.
\<close>

definition loadPersistedState ::
  "platform \<Rightarrow> string option \<Rightarrow> storage \<Rightarrow> exn + (stored_state \<times> (console_level \<times> string) list)"
where
  "loadPersistedState env u ls =
     (if noViewUUID u then Inr (defaultState, [])
      else
        (case loadTry env ls (the u) of
           Inr st \<Rightarrow> Inr (st, [])
         | Inl e \<Rightarrow> Inr (defaultState, [(CWarn, ''Failed to load persisted state:'')])))"

section \<open>Saving\<close>

definition json_of_favorite :: "FavoriteLocation \<Rightarrow> json" where
  "json_of_favorite f =
     JObject [(''location'', JString (location f)),
              (''latitude'', JNumber (latitude f)),
              (''longitude'', JNumber (longitude f)),
              (''addedAt'', JNumber (of_int (addedAt f)))]"

definition json_of_entry :: "SearchHistoryEntry \<Rightarrow> json" where
  "json_of_entry e =
     JObject [(''location'', JString (location e)),
              (''timestamp'', JNumber (of_int (timestamp e)))]"

text \<open>The value \<open>JSON.stringify\<close> sees: an undefined \<open>lastLocation\<close> is left out.\<close>

definition json_of_state :: "weather_state \<Rightarrow> json" where
  "json_of_state st =
     JObject ([(''favorites'', JArray (map json_of_favorite (favorites st))),
               (''searchHistory'', JArray (map json_of_entry (searchHistory st)))]
              @ (case lastLocation st of None \<Rightarrow> [] | Some l \<Rightarrow> [(''lastLocation'', JString l)]))"

text \<open>The body of the \<open>try\<close> block of \<open>savePersistedState\<close>.\<close>

definition saveTry :: "platform \<Rightarrow> weather_state \<Rightarrow> app \<Rightarrow> exn + app" where
  "saveTry env st a =
     (case setItem (localStorage a) (storageKey (the (viewUUID a)))
             (JSON_stringify env (json_of_state st)) of
        Inl e \<Rightarrow> Inl e
      | Inr ls \<Rightarrow>
          Inr (a\<lparr>localStorage := ls,
                 console := console a @ [(CLog, ''[WEATHER-APP] Saved persisted state'')]\<rparr>))"

definition savePersistedState :: "platform \<Rightarrow> weather_state \<Rightarrow> app \<Rightarrow> exn + app" where
  "savePersistedState env st a =
     (if noViewUUID (viewUUID a) then Inr a
      else
        (case saveTry env st a of
           Inr a' \<Rightarrow> Inr a'
         | Inl e \<Rightarrow> Inr (a\<lparr>console := console a @ [(CWarn, ''Failed to save persisted state:'')]\<rparr>)))"

section \<open>Logging\<close>

definition addLogEntry :: "console_level \<Rightarrow> string \<Rightarrow> string \<Rightarrow> app \<Rightarrow> app" where
  "addLogEntry lvl ts msg a =
     (let es = logEntries a @ [\<lparr>level = lvl, time = ts, message = msg\<rparr>]
      in a\<lparr>logEntries := (if length es > 50 then tl es else es)\<rparr>)"

definition consoleLevel :: "log_level \<Rightarrow> console_level" where
  "consoleLevel l = (case l of LInfo \<Rightarrow> CInfo | LWarning \<Rightarrow> CWarn | LError \<Rightarrow> CError)"

definition sendLog :: "host_log \<Rightarrow> app \<Rightarrow> exn + app" where
  "sendLog m a = (if hostConnected a then Inr (a\<lparr>hostLog := hostLog a @ [m]\<rparr>) else Inl Rejected)"

text \<open>
  \<open>logToHost\<close>. \<open>dat\<close> is \<open>JSON.stringify(data)\<close> when \<open>data\<close> is given and truthy.
  The part after \<open>await app.sendLog\<close> runs in a later microtask; the model runs it at
  once, which keeps the order of the entries of each list.
\<close>

definition logToHost :: "platform \<Rightarrow> log_level \<Rightarrow> string \<Rightarrow> string option \<Rightarrow> app \<Rightarrow> app" where
  "logToHost env lvl msg dat a =
     (let logMessage = (case dat of Some d \<Rightarrow> msg @ '' '' @ d | None \<Rightarrow> msg);
          a1 = a\<lparr>console := console a @ [(consoleLevel lvl, ''[WEATHER-APP] '' @ logMessage)]\<rparr>;
          a2 = (case sendLog \<lparr>hl_level = lvl, hl_data = logMessage, hl_logger = ''weather-app''\<rparr> a1 of
                  Inr a' \<Rightarrow> a'
                | Inl e \<Rightarrow> a1\<lparr>console := console a1 @ [(CError, ''Failed to send log to host:'')]\<rparr>)
      in addLogEntry (consoleLevel lvl) (toLocaleTimeString env) logMessage a2)"

definition log_info :: "platform \<Rightarrow> string \<Rightarrow> string option \<Rightarrow> app \<Rightarrow> app" where
  "log_info env msg dat a = logToHost env LInfo msg dat a"

definition log_warn :: "platform \<Rightarrow> string \<Rightarrow> string option \<Rightarrow> app \<Rightarrow> app" where
  "log_warn env msg dat a = logToHost env LWarning msg dat a"

definition log_error :: "platform \<Rightarrow> string \<Rightarrow> string option \<Rightarrow> app \<Rightarrow> app" where
  "log_error env msg dat a = logToHost env LError msg dat a"

section \<open>Search history and favorites\<close>

text \<open>
  The three operations below end in \<open>savePersistedState\<close> and have no handler of
  their own, so an exception of that call would be theirs: they return \<open>exn + app\<close>.
\<close>

definition addToSearchHistory :: "(string \<Rightarrow> string) \<Rightarrow> platform \<Rightarrow> string \<Rightarrow> app \<Rightarrow> exn + app" where
  "addToSearchHistory toLowerCase env loc a =
     (let ps = persistedState a;
          h1 = filter (\<lambda>entry. toLowerCase (location entry) \<noteq> toLowerCase loc) (searchHistory ps);
          h2 = \<lparr>location = loc, timestamp = Date_now env\<rparr> # h1;
          h3 = take 10 h2;
          ps' = ps\<lparr>searchHistory := h3\<rparr>
      in savePersistedState env ps' (a\<lparr>persistedState := ps'\<rparr>))"

definition addToFavorites ::
  "(string \<Rightarrow> string) \<Rightarrow> platform \<Rightarrow> string \<Rightarrow> real \<Rightarrow> real \<Rightarrow> app \<Rightarrow> exn + app" where
  "addToFavorites toLowerCase env loc lat lon a =
     (let ps = persistedState a;
          exists = list_ex (\<lambda>fav. toLowerCase (location fav) = toLowerCase loc) (favorites ps)
      in if exists then Inr (log_warn env ''Location already in favorites'' None a)
         else
           (let ps' = ps\<lparr>favorites := favorites ps @
                          [\<lparr>location = loc, latitude = lat, longitude = lon,
                            addedAt = Date_now env\<rparr>]\<rparr>
            in case savePersistedState env ps' (a\<lparr>persistedState := ps'\<rparr>) of
                 Inl e \<Rightarrow> Inl e
               | Inr a' \<Rightarrow> Inr (log_info env (''Added '' @ loc @ '' to favorites'') None a')))"

definition removeFromFavorites :: "(string \<Rightarrow> string) \<Rightarrow> platform \<Rightarrow> string \<Rightarrow> app \<Rightarrow> exn + app" where
  "removeFromFavorites toLowerCase env loc a =
     (let ps = persistedState a;
          ps' = ps\<lparr>favorites :=
                  filter (\<lambda>fav. toLowerCase (location fav) \<noteq> toLowerCase loc) (favorites ps)\<rparr>
      in case savePersistedState env ps' (a\<lparr>persistedState := ps'\<rparr>) of
           Inl e \<Rightarrow> Inl e
         | Inr a' \<Rightarrow> Inr (log_info env (''Removed '' @ loc @ '' from favorites'') None a'))"

definition isFavorited :: "(string \<Rightarrow> string) \<Rightarrow> string \<Rightarrow> app \<Rightarrow> bool" where
  "isFavorited toLowerCase loc a =
     list_ex (\<lambda>fav. toLowerCase (location fav) = toLowerCase loc) (favorites (persistedState a))"

section \<open>Viewport height\<close>

definition HEIGHT_BASE :: int where "HEIGHT_BASE = 740"
definition HEIGHT_FORECAST :: int where "HEIGHT_FORECAST = 210"
definition HEIGHT_LOG_COLLAPSED :: int where "HEIGHT_LOG_COLLAPSED = 50"
definition HEIGHT_LOG_EXPANDED :: int where "HEIGHT_LOG_EXPANDED = 349"

definition updateViewportHeight :: "platform \<Rightarrow> app \<Rightarrow> app" where
  "updateViewportHeight env a =
     (let forecastHeight = (if isForecastVisible a then HEIGHT_FORECAST else 0);
          logHeight = (if isLogExpanded a then HEIGHT_LOG_EXPANDED else HEIGHT_LOG_COLLAPSED);
          totalHeight = HEIGHT_BASE + forecastHeight + logHeight
      in a\<lparr>sizeChanged := sizeChanged a @ [totalHeight],
           console := console a @
             [(CLog, ''[WEATHER-APP] Viewport height updated to '' @ Number_toString env totalHeight
                     @ ''px (base: '' @ Number_toString env HEIGHT_BASE
                     @ '', forecast: '' @ Number_toString env forecastHeight
                     @ '', log: '' @ Number_toString env logHeight @ '')'')]\<rparr>)"

text \<open>The click handler of the activity log header and the one of the forecast button.\<close>

definition loggingHeaderClick :: "platform \<Rightarrow> app \<Rightarrow> app" where
  "loggingHeaderClick env a =
     (let a1 = updateViewportHeight env (a\<lparr>isLogExpanded := \<not> isLogExpanded a\<rparr>)
      in a1\<lparr>console := console a1 @
           [(CLog, ''[WEATHER-APP] Activity log '' @
                   (if isLogExpanded a1 then ''expanded'' else ''collapsed''))]\<rparr>)"

definition forecastToggleClick :: "platform \<Rightarrow> app \<Rightarrow> app" where
  "forecastToggleClick env a =
     (let a1 = updateViewportHeight env (a\<lparr>isForecastVisible := \<not> isForecastVisible a\<rparr>)
      in log_info env
           (if isForecastVisible a1 then ''7-day forecast expanded'' else ''7-day forecast collapsed'')
           None a1)"

text \<open>The module-level variables as they are initialised, over a given storage and host.\<close>

definition initialApp :: "storage \<Rightarrow> bool \<Rightarrow> app" where
  "initialApp ls host =
     \<lparr>viewUUID = None,
      persistedState = \<lparr>favorites = [], searchHistory = [], lastLocation = None\<rparr>,
      localStorage = ls,
      console = [],
      hostConnected = host,
      hostLog = [],
      logEntries = [],
      isForecastVisible = False,
      isLogExpanded = False,
      sizeChanged = []\<rparr>"

text \<open>
  The part of \<open>initialize\<close> up to the first size report, once \<open>app.connect()\<close> has
  resolved.
\<close>

definition initialize :: "platform \<Rightarrow> app \<Rightarrow> app" where
  "initialize env a =
     log_info env ''Sent initial size'' None
       (updateViewportHeight env (log_info env ''Connected to host'' None a))"

section \<open>Progressive insight stream\<close>

text \<open>
  One element of the \<open>updates\<close> array of the tool response. Its \<open>data\<close> field only
  feeds \<open>renderPhaseContent\<close>, whose markup is not modelled: a rendered phase is recorded
  as the update it shows, and every update is taken to carry a \<open>data\<close> object, as
  the ones the server sends do, so that \<open>renderPhaseContent\<close> returns. Delays are
  whole numbers of milliseconds.
\<close>

record update =
  phase :: int
  delay :: nat
  title :: string

datatype progress = Initializing | PhaseOf nat int string | AnalysisComplete

text \<open>
  A stream modal: whether it is still in the document, the children of its
  \<open>stream-phases\<close> container and its progress text.
\<close>

record modal =
  attached :: bool
  streamPhases :: "update list"
  progressText :: progress

text \<open>
  A timer armed by \<open>setTimeout\<close>: the time at which it is due and what its callback
  closes over (the update, its index, \<open>totalPhases\<close> and the modal whose elements
  \<open>getElementById\<close> returned).
\<close>

record timer =
  due :: nat
  t_update :: update
  t_index :: nat
  t_total :: int
  t_modal :: nat

text \<open>
  The page: the application state, every stream modal created so far in creation
  order (which is document order, each being appended to the body), the pending
  timers in the order they were armed, and the clock of the event loop in ms.
\<close>

record page =
  app :: app
  modals :: "modal list"
  timers :: "timer list"
  clock :: nat

text \<open>\<open>setTimeout(callback, d)\<close> at the current time.\<close>

definition setTimeout :: "update \<Rightarrow> nat \<Rightarrow> int \<Rightarrow> nat \<Rightarrow> nat \<Rightarrow> page \<Rightarrow> page" where
  "setTimeout u i totalPhases m d p =
     p\<lparr>timers := timers p @
         [\<lparr>due = clock p + d, t_update = u, t_index = i, t_total = totalPhases, t_modal = m\<rparr>]\<rparr>"

text \<open>
  \<open>document.getElementById\<close> for the three ids of a stream modal: the first modal in
  document order that is attached.
\<close>

definition firstAttached :: "modal list \<Rightarrow> nat" where
  "firstAttached ms = length (takeWhile (\<lambda>m. \<not> attached m) ms)"

text \<open>The \<open>forEach\<close> loop: one \<open>setTimeout\<close> per update, with its index.\<close>

fun armAll :: "update list \<Rightarrow> nat \<Rightarrow> int \<Rightarrow> nat \<Rightarrow> page \<Rightarrow> page" where
  "armAll [] i totalPhases m p = p"
| "armAll (u # us) i totalPhases m p =
     armAll us (Suc i) totalPhases m (setTimeout u i totalPhases m (delay u) p)"

text \<open>
  \<open>displayProgressiveInsights\<close>. The new modal is appended to the body, so
  \<open>getElementById\<close> finds the three elements (of this modal, or of an earlier stream
  modal that is still open) and the early return for a missing element is not taken.
\<close>

definition displayProgressiveInsights ::
  "platform \<Rightarrow> string \<Rightarrow> update list \<Rightarrow> int \<Rightarrow> page \<Rightarrow> page"
where
  "displayProgressiveInsights env streamId updates totalPhases p =
     (let p1 = p\<lparr>modals := modals p @
                   [\<lparr>attached = True, streamPhases = [], progressText = Initializing\<rparr>]\<rparr>;
          p2 = p1\<lparr>app := log_info env ''Stream modal displayed, starting progressive updates''
                           None (app p1)\<rparr>;
          m = firstAttached (modals p2)
      in armAll updates 0 totalPhases m p2)"

text \<open>
  The click handler of the close button and of the backdrop of modal \<open>i\<close>:
  \<open>modal.remove()\<close>, and nothing else. Modals are referred to by their position
  in the list; a position beyond the list stands for no modal, and the list update
  then changes nothing.
\<close>

definition closeModal :: "nat \<Rightarrow> page \<Rightarrow> page" where
  "closeModal i p = p\<lparr>modals := (modals p)[i := (modals p ! i)\<lparr>attached := False\<rparr>]\<rparr>"

text \<open>The callback given to \<open>setTimeout\<close>, for the values its timer closes over.\<close>

definition phaseHandler :: "platform \<Rightarrow> timer \<Rightarrow> page \<Rightarrow> page" where
  "phaseHandler env tm p =
     (let u = t_update tm;
          i = t_index tm;
          m = modals p ! t_modal tm;
          m1 = m\<lparr>streamPhases := streamPhases m @ [u],
                 progressText := PhaseOf (i + 1) (t_total tm) (title u)\<rparr>;
          a1 = log_info env (''Stream phase '' @ Number_toString env (phase u) @ '' received'')
                 (if title u = [] then None else Some (JSON_stringify env (JString (title u))))
                 (app p);
          m2 = (if int i = t_total tm - 1 then m1\<lparr>progressText := AnalysisComplete\<rparr> else m1)
      in p\<lparr>app := a1, modals := (modals p)[t_modal tm := m2]\<rparr>)"

text \<open>
  The event loop up to time \<open>t\<close>: every pending timer that is due by then runs, in the
  order of the due times (timers due together run in the order they were armed),
  and leaves the list of pending timers.
\<close>

definition advance :: "platform \<Rightarrow> nat \<Rightarrow> page \<Rightarrow> page" where
  "advance env t p =
     (let ready = sort_key due (filter (\<lambda>tm. due tm \<le> t) (timers p));
          rest = filter (\<lambda>tm. \<not> due tm \<le> t) (timers p)
      in fold (phaseHandler env) ready (p\<lparr>timers := rest, clock := max (clock p) t\<rparr>))"

definition initialPage :: "app \<Rightarrow> page" where
  "initialPage a = \<lparr>app = a, modals = [], timers = [], clock = 0\<rparr>"

section \<open>Comparison set\<close>

text \<open>
  Modelled from the spec: the comparison-set manager (\<open>removeLocation\<close>, and the
  views it switches between) is not among the sources; only its browser tests are.
  The set is the ordered sequence of the location names on display.
\<close>

datatype view = ComparisonGrid "string list" | SingleLocation string | TornDown

text \<open>Modelled from the spec: removing the first matching entry by position.\<close>

fun removeFirst :: "string \<Rightarrow> string list \<Rightarrow> string list" where
  "removeFirst x [] = []"
| "removeFirst x (y # ys) = (if y = x then ys else y # removeFirst x ys)"

text \<open>
  Modelled from the spec: \<open>removeLocation\<close>. A resulting set of length 1 leaves
  comparison mode for the single-location view of the entry that remains; an empty
  one is torn down.
\<close>

definition removeLocation :: "string \<Rightarrow> string list \<Rightarrow> view" where
  "removeLocation loc cs =
     (case removeFirst loc cs of
        [] \<Rightarrow> TornDown
      | [x] \<Rightarrow> SingleLocation x
      | x # y # zs \<Rightarrow> ComparisonGrid (x # y # zs))"

section \<open>Sequences of calls\<close>

fun addLogEntries :: "(console_level \<times> string \<times> string) list \<Rightarrow> app \<Rightarrow> app" where
  "addLogEntries [] a = a"
| "addLogEntries ((lvl, ts, msg) # cs) a = addLogEntries cs (addLogEntry lvl ts msg a)"


datatype mutation =
    AddToSearchHistory string
  | AddToFavorites string real real
  | RemoveFromFavorites string

fun mutate :: "(string \<Rightarrow> string) \<Rightarrow> platform \<Rightarrow> mutation \<Rightarrow> app \<Rightarrow> exn + app" where
  "mutate toLowerCase env (AddToSearchHistory loc) a = addToSearchHistory toLowerCase env loc a"
| "mutate toLowerCase env (AddToFavorites loc lat lon) a =
     addToFavorites toLowerCase env loc lat lon a"
| "mutate toLowerCase env (RemoveFromFavorites loc) a = removeFromFavorites toLowerCase env loc a"

fun mutations :: "(string \<Rightarrow> string) \<Rightarrow> (platform \<times> mutation) list \<Rightarrow> app \<Rightarrow> exn + app" where
  "mutations toLowerCase [] a = Inr a"
| "mutations toLowerCase ((env, m) # ms) a =
     (case mutate toLowerCase env m a of
        Inl e \<Rightarrow> Inl e
      | Inr a' \<Rightarrow> mutations toLowerCase ms a')"

section \<open>Properties of a search history\<close>





section \<open>Letter case\<close>

text \<open>
  "Differing only in letter case", for words given letter by letter (each letter the
  string of its encoding) and a table of pairs of a capital letter and its small
  letter: the two words have the same number of letters, and at each position the
  letters are equal or one is the capital of the other.
\<close>

definition same_letter :: "(string \<times> string) list \<Rightarrow> string \<Rightarrow> string \<Rightarrow> bool" where
  "same_letter pairs c d = (c = d \<or> (c, d) \<in> set pairs \<or> (d, c) \<in> set pairs)"

definition differ_only_in_case ::
  "(string \<times> string) list \<Rightarrow> string list \<Rightarrow> string list \<Rightarrow> bool"
where
  "differ_only_in_case pairs v w = list_all2 (same_letter pairs) v w"

section \<open>The height as the specification words it\<close>

record VisibilityState =
  forecastExpanded :: bool
  logExpanded :: bool

record height_table =
  base :: int
  forecastExpandedHeight :: int
  logCollapsedHeight :: int
  logExpandedHeight :: int

definition computePreferredHeight :: "height_table \<Rightarrow> VisibilityState \<Rightarrow> int" where
  "computePreferredHeight tbl v =
     base tbl + (if forecastExpanded v then forecastExpandedHeight tbl else 0)
       + (if logExpanded v then logExpandedHeight tbl else logCollapsedHeight tbl)"

text \<open>The constant table and the visibility flags of the module.\<close>

definition heightTable :: height_table where
  "heightTable =
     \<lparr>base = HEIGHT_BASE, forecastExpandedHeight = HEIGHT_FORECAST,
      logCollapsedHeight = HEIGHT_LOG_COLLAPSED, logExpandedHeight = HEIGHT_LOG_EXPANDED\<rparr>"

definition visibility :: "app \<Rightarrow> VisibilityState" where
  "visibility a = \<lparr>forecastExpanded = isForecastVisible a, logExpanded = isLogExpanded a\<rparr>"

section \<open>Example data\<close>

text \<open>
  A stored document whose \<open>favorites\<close> is a string, with the value \<open>JSON.parse\<close>
  gives for it, and a platform whose \<open>JSON.parse\<close> knows this one document and
  rejects every other text.
\<close>

definition example_text :: string where
  \<open>example_text =
     ''{"favorites":"Oslo","searchHistory":[{"location":"Paris","timestamp":1}],"lastLocation":"Paris"}''\<close>

definition example_value :: json where
  "example_value =
     JObject [(''favorites'', JString ''Oslo''),
              (''searchHistory'',
                 JArray [JObject [(''location'', JString ''Paris''), (''timestamp'', JNumber 1)]]),
              (''lastLocation'', JString ''Paris'')]"

definition example_parse :: "string \<Rightarrow> exn + json" where
  "example_parse s = (if s = example_text then Inr example_value else Inl SyntaxError)"

definition example_platform :: "int \<Rightarrow> platform" where
  "example_platform now =
     \<lparr>JSON_parse = example_parse,
      JSON_stringify = (\<lambda>v. ''{}''),
      Number_toString = (\<lambda>n. ''0''),
      Date_now = now,
      toLocaleTimeString = ''12:00:00''\<rparr>"

text \<open>
  The Greek word for street, letter by letter in UTF-8: in capitals (omicron, delta,
  omicron, sigma), in small letters with the small sigma, and in small letters with
  the final sigma; and the pairs of capital and small letter of its letters.
\<close>

definition odos_capitals :: "string list" where
  "odos_capitals =
     [[CHR 0xCE, CHR 0x9F], [CHR 0xCE, CHR 0x94], [CHR 0xCE, CHR 0x9F], [CHR 0xCE, CHR 0xA3]]"

definition odos_small :: "string list" where
  "odos_small =
     [[CHR 0xCE, CHR 0xBF], [CHR 0xCE, CHR 0xB4], [CHR 0xCE, CHR 0xBF], [CHR 0xCF, CHR 0x83]]"

definition odos_final :: "string list" where
  "odos_final =
     [[CHR 0xCE, CHR 0xBF], [CHR 0xCE, CHR 0xB4], [CHR 0xCE, CHR 0xBF], [CHR 0xCF, CHR 0x82]]"

definition greek_letters :: "(string \<times> string) list" where
  "greek_letters =
     [([CHR 0xCE, CHR 0x9F], [CHR 0xCE, CHR 0xBF]),
      ([CHR 0xCE, CHR 0x94], [CHR 0xCE, CHR 0xB4]),
      ([CHR 0xCE, CHR 0xA3], [CHR 0xCF, CHR 0x83]),
      ([CHR 0xCE, CHR 0xA3], [CHR 0xCF, CHR 0x82])]"

text \<open>
  What \<open>String.prototype.toLowerCase\<close> returns for the strings of the examples.
  A sigma that ends a word is lowered to the final sigma, so the capitals above give
  the third spelling. The strings that are not listed are in small letters already;
  no example uses any other string.
\<close>

definition example_toLowerCase :: "string \<Rightarrow> string" where
  "example_toLowerCase s =
     (case map_of
        [(''Paris'', ''paris''), (''PARIS'', ''paris''), (''Tokyo'', ''tokyo''),
         (''London'', ''london''), (concat odos_capitals, concat odos_final)] s of
        Some t \<Rightarrow> t
      | None \<Rightarrow> s)"

text \<open>
  A storage that holds the document for the view \<open>view-1\<close> and a truncated text for
  the view \<open>view-2\<close>, and a storage that refuses every write.
\<close>

definition example_storage :: storage where
  "example_storage =
     \<lparr>items = [storageKey ''view-1'' \<mapsto> example_text, storageKey ''view-2'' \<mapsto> ''{''],
      readable = True,
      accepts = (\<lambda>k v. True)\<rparr>"

definition full_storage :: storage where
  "full_storage = \<lparr>items = Map.empty, readable = True, accepts = (\<lambda>k v. False)\<rparr>"

text \<open>An application state with one favorite and two searches, and two further searches.\<close>

definition example_app :: app where
  "example_app =
     (initialApp example_storage True)
       \<lparr>viewUUID := Some ''view-1'',
        persistedState :=
          \<lparr>favorites = [\<lparr>location = ''paris'', latitude = 48.85, longitude = 2.35, addedAt = 400\<rparr>],
           searchHistory = [\<lparr>location = ''Paris'', timestamp = 500\<rparr>,
                            \<lparr>location = ''Tokyo'', timestamp = 300\<rparr>],
           lastLocation = None\<rparr>\<rparr>"

text \<open>
  The state in which \<open>addToFavorites\<close> of the capitals leaves the initial state:
  one favorite, and the message of the addition logged.
\<close>

definition odos_added :: app where
  "odos_added =
     log_info (example_platform 1000) (''Added '' @ concat odos_capitals @ '' to favorites'') None
       ((initialApp example_storage True)
          \<lparr>persistedState :=
             \<lparr>favorites = [\<lparr>location = concat odos_capitals, latitude = 37.98,
                            longitude = 23.73, addedAt = 1000\<rparr>],
              searchHistory = [], lastLocation = None\<rparr>\<rparr>)"


definition example_mutations :: "(platform \<times> mutation) list" where
  "example_mutations =
     [(example_platform 1000, AddToSearchHistory ''Paris''),
      (example_platform 2000, AddToFavorites ''Paris'' 48.85 2.35),
      (example_platform 3000, RemoveFromFavorites ''PARIS'')]"

definition full_log_app :: app where
  "full_log_app =
     (initialApp example_storage True)
       \<lparr>logEntries := replicate 50 \<lparr>level = CInfo, time = ''12:00:00'', message = ''ready''\<rparr>\<rparr>"

text \<open>A state with a view identifier over the storage that refuses every write.\<close>

definition unsaved_app :: app where
  "unsaved_app = (initialApp full_storage True)\<lparr>viewUUID := Some ''view-1''\<rparr>"

text \<open>The five phases the stream tool sends, and their stream started at time 0.\<close>

definition five_updates :: "update list" where
  "five_updates =
     [\<lparr>phase = 1, delay = 1000, title = ''Current Conditions''\<rparr>,
      \<lparr>phase = 2, delay = 2000, title = ''Pattern Analysis''\<rparr>,
      \<lparr>phase = 3, delay = 3000, title = ''Historical Comparison''\<rparr>,
      \<lparr>phase = 4, delay = 4000, title = ''Forecast Predictions''\<rparr>,
      \<lparr>phase = 5, delay = 5000, title = ''Recommendations''\<rparr>]"

definition stream_started :: page where
  "stream_started =
     displayProgressiveInsights (example_platform 0) ''stream-1'' five_updates 5
       (initialPage (initialApp example_storage True))"

section \<open>What logging leaves alone\<close>

lemma addLogEntry_frame [simp]:
  "viewUUID (addLogEntry lvl ts msg a) = viewUUID a"
  "persistedState (addLogEntry lvl ts msg a) = persistedState a"
  "localStorage (addLogEntry lvl ts msg a) = localStorage a"
  "console (addLogEntry lvl ts msg a) = console a"
  "hostConnected (addLogEntry lvl ts msg a) = hostConnected a"
  "hostLog (addLogEntry lvl ts msg a) = hostLog a"
  "isForecastVisible (addLogEntry lvl ts msg a) = isForecastVisible a"
  "isLogExpanded (addLogEntry lvl ts msg a) = isLogExpanded a"
  "sizeChanged (addLogEntry lvl ts msg a) = sizeChanged a"
  by (simp_all add: addLogEntry_def Let_def)

lemma logToHost_frame [simp]:
  "viewUUID (logToHost env lvl msg dat a) = viewUUID a"
  "persistedState (logToHost env lvl msg dat a) = persistedState a"
  "localStorage (logToHost env lvl msg dat a) = localStorage a"
  "hostConnected (logToHost env lvl msg dat a) = hostConnected a"
  "isForecastVisible (logToHost env lvl msg dat a) = isForecastVisible a"
  "isLogExpanded (logToHost env lvl msg dat a) = isLogExpanded a"
  "sizeChanged (logToHost env lvl msg dat a) = sizeChanged a"
  by (simp_all add: logToHost_def sendLog_def Let_def)

lemma logToHost_console:
  "console (logToHost env lvl msg None a) =
     console a @ (consoleLevel lvl, ''[WEATHER-APP] '' @ msg)
       # (if hostConnected a then [] else [(CError, ''Failed to send log to host:'')])"
  by (simp add: logToHost_def sendLog_def Let_def)

lemma logToHost_hostLog:
  "hostLog (logToHost env lvl msg None a) =
     hostLog a @ (if hostConnected a
                  then [\<lparr>hl_level = lvl, hl_data = msg, hl_logger = ''weather-app''\<rparr>] else [])"
  by (simp add: logToHost_def sendLog_def Let_def)

section \<open>The activity log holds at most 50 entries\<close>

lemma addLogEntry_length:
  "length (logEntries a) \<le> 50 \<Longrightarrow> length (logEntries (addLogEntry lvl ts msg a)) \<le> 50"
  by (auto simp: addLogEntry_def Let_def)

lemma addLogEntries_length:
  "length (logEntries a) \<le> 50 \<Longrightarrow> length (logEntries (addLogEntries cs a)) \<le> 50"
proof (induction cs arbitrary: a)
  case Nil
  then show ?case by simp
next
  case (Cons c cs)
  obtain lvl ts msg where c: "c = (lvl, ts, msg)" by (cases c)
  from Cons.prems have "length (logEntries (addLogEntry lvl ts msg a)) \<le> 50"
    by (rule addLogEntry_length)
  then show ?case using Cons.IH c by simp
qed

lemma addLogEntry_shift:
  "length (logEntries a) \<le> 50 \<Longrightarrow>
   logEntries (addLogEntry lvl ts msg a) =
     (if length (logEntries a) = 50 then tl (logEntries a) else logEntries a)
       @ [\<lparr>level = lvl, time = ts, message = msg\<rparr>]"
  by (cases "logEntries a") (auto simp: addLogEntry_def Let_def)

text \<open>
  C10. From a log of at most 50 entries (it starts empty), every sequence of
  \<open>addLogEntry\<close> calls leaves at most 50 entries; a call on a log of exactly 50
  entries drops the oldest one and appends the new one, and a call on a shorter log
  only appends.
\<close>

theorem addLogEntry_at_most_50:
  "length (logEntries a) \<le> 50 \<Longrightarrow>
   length (logEntries (addLogEntries cs a)) \<le> 50 \<and>
   logEntries (addLogEntry lvl ts msg a) =
     (if length (logEntries a) = 50 then tl (logEntries a) else logEntries a)
       @ [\<lparr>level = lvl, time = ts, message = msg\<rparr>]"
  using addLogEntries_length addLogEntry_shift by blast

text \<open>
  The property at a log that is full: two more entries leave 50, and the first of
  them takes the place of the oldest entry.
\<close>

theorem addLogEntry_at_most_50_witness:
  "length (logEntries full_log_app) \<le> 50 \<and>
   length (logEntries (addLogEntries
      [(CWarn, ''12:00:01'', ''one''), (CError, ''12:00:02'', ''two'')] full_log_app)) \<le> 50 \<and>
   logEntries (addLogEntry CWarn ''12:00:01'' ''one'' full_log_app) =
     replicate 49 \<lparr>level = CInfo, time = ''12:00:00'', message = ''ready''\<rparr>
       @ [\<lparr>level = CWarn, time = ''12:00:01'', message = ''one''\<rparr>]"
proof -
  have len: "length (logEntries full_log_app) = 50"
    by (simp add: full_log_app_def)
  have tl: "tl (logEntries full_log_app) =
              replicate 49 \<lparr>level = CInfo, time = ''12:00:00'', message = ''ready''\<rparr>"
    by (simp add: full_log_app_def tl_replicate)
  from len have h: "length (logEntries full_log_app) \<le> 50" by simp
  show ?thesis
    using addLogEntry_at_most_50 [OF h,
        of "[(CWarn, ''12:00:01'', ''one''), (CError, ''12:00:02'', ''two'')]"
           CWarn "''12:00:01''" "''one''"]
      len tl by simp
qed

section \<open>The reported height\<close>

lemma updateViewportHeight_frame [simp]:
  "isForecastVisible (updateViewportHeight env a) = isForecastVisible a"
  "isLogExpanded (updateViewportHeight env a) = isLogExpanded a"
  by (simp_all add: updateViewportHeight_def Let_def)

lemma updateViewportHeight_size:
  "sizeChanged (updateViewportHeight env a) =
     sizeChanged a @ [computePreferredHeight heightTable (visibility a)]"
  by (simp add: updateViewportHeight_def computePreferredHeight_def heightTable_def
      visibility_def Let_def)

lemma initialize_size:
  "sizeChanged (initialize env (initialApp ls host)) = [HEIGHT_BASE + HEIGHT_LOG_COLLAPSED]"
proof -
  have "visibility (log_info env ''Connected to host'' None (initialApp ls host))
        = \<lparr>forecastExpanded = False, logExpanded = False\<rparr>"
    by (simp add: visibility_def log_info_def initialApp_def)
  moreover have "sizeChanged (log_info env ''Connected to host'' None (initialApp ls host)) = []"
    by (simp add: log_info_def initialApp_def)
  ultimately show ?thesis
    by (simp add: initialize_def log_info_def updateViewportHeight_size
        computePreferredHeight_def heightTable_def)
qed

lemma toggle_reports:
  "sizeChanged (forecastToggleClick env a) =
     sizeChanged a @ [computePreferredHeight heightTable
                        ((visibility a)\<lparr>forecastExpanded := \<not> isForecastVisible a\<rparr>)]"
  "sizeChanged (loggingHeaderClick env a) =
     sizeChanged a @ [computePreferredHeight heightTable
                        ((visibility a)\<lparr>logExpanded := \<not> isLogExpanded a\<rparr>)]"
  by (simp_all add: forecastToggleClick_def loggingHeaderClick_def Let_def log_info_def
      updateViewportHeight_size visibility_def)

text \<open>
  C4. The height that \<open>updateViewportHeight\<close> sends to the host is
  \<open>computePreferredHeight\<close> of the constant table and the two visibility flags:
  base, plus the forecast height when the forecast is expanded, plus the expanded or
  the collapsed log height. The call leaves the flags as they are, and the first
  report, from the initial state with both sections collapsed, is base plus the
  collapsed log height.
\<close>

theorem updateViewportHeight_reports:
  "sizeChanged (updateViewportHeight env a) =
     sizeChanged a @ [computePreferredHeight heightTable (visibility a)] \<and>
   visibility (updateViewportHeight env a) = visibility a \<and>
   sizeChanged (initialize env (initialApp ls host)) = [HEIGHT_BASE + HEIGHT_LOG_COLLAPSED]"
  by (simp add: updateViewportHeight_size initialize_size visibility_def)

text \<open>
  The property in numbers: 790 px at the start, and 1000 px once the forecast is
  expanded.
\<close>

theorem updateViewportHeight_reports_witness:
  "sizeChanged (initialize (example_platform 0) (initialApp example_storage True)) = [790] \<and>
   sizeChanged (updateViewportHeight (example_platform 0)
      ((initialApp example_storage True)\<lparr>isForecastVisible := True\<rparr>)) = [1000]"
  using updateViewportHeight_reports [of "example_platform 0"
      "(initialApp example_storage True)\<lparr>isForecastVisible := True\<rparr>" example_storage True]
  by (simp add: computePreferredHeight_def heightTable_def visibility_def initialApp_def
      HEIGHT_BASE_def HEIGHT_FORECAST_def HEIGHT_LOG_COLLAPSED_def HEIGHT_LOG_EXPANDED_def)

section \<open>A failed save is caught\<close>

lemma savePersistedState_cases:
  "savePersistedState env st a =
     Inr (if noViewUUID (viewUUID a) then a
          else if accepts (localStorage a) (storageKey (the (viewUUID a)))
                    (JSON_stringify env (json_of_state st))
          then a\<lparr>localStorage := (localStorage a)\<lparr>items := (items (localStorage a))
                      (storageKey (the (viewUUID a)) \<mapsto> JSON_stringify env (json_of_state st))\<rparr>,
                 console := console a @ [(CLog, ''[WEATHER-APP] Saved persisted state'')]\<rparr>
          else a\<lparr>console := console a @ [(CWarn, ''Failed to save persisted state:'')]\<rparr>)"
  by (simp add: savePersistedState_def saveTry_def setItem_def)

lemma savePersistedState_no_view:
  "noViewUUID (viewUUID a) \<Longrightarrow> savePersistedState env st a = Inr a"
  by (simp add: savePersistedState_cases)

text \<open>
  C7. \<open>savePersistedState\<close> always returns normally and never changes the in-memory
  \<open>persistedState\<close>. When there is a view identifier and the storage refuses the
  write, the only effect of the call is one warning on the console: the storage and
  every variable of the module are as before.
\<close>

theorem savePersistedState_failure:
  "\<exists>a'. savePersistedState env st a = Inr a' \<and>
        persistedState a' = persistedState a \<and>
        (\<not> noViewUUID (viewUUID a) \<and>
         \<not> accepts (localStorage a) (storageKey (the (viewUUID a)))
              (JSON_stringify env (json_of_state st)) \<longrightarrow>
         a' = a\<lparr>console := console a @ [(CWarn, ''Failed to save persisted state:'')]\<rparr>)"
  by (simp add: savePersistedState_cases)

text \<open>The property at a storage that refuses every write.\<close>

theorem savePersistedState_failure_witness:
  "\<not> noViewUUID (viewUUID unsaved_app) \<and>
   \<not> accepts (localStorage unsaved_app) (storageKey (the (viewUUID unsaved_app)))
        (JSON_stringify (example_platform 0) (json_of_state (persistedState example_app))) \<and>
   savePersistedState (example_platform 0) (persistedState example_app) unsaved_app =
     Inr (unsaved_app\<lparr>console := [(CWarn, ''Failed to save persisted state:'')]\<rparr>)"
proof -
  have h1: "\<not> noViewUUID (viewUUID unsaved_app)"
    by (simp add: unsaved_app_def noViewUUID_def)
  have h2: "\<not> accepts (localStorage unsaved_app) (storageKey (the (viewUUID unsaved_app)))
        (JSON_stringify (example_platform 0) (json_of_state (persistedState example_app)))"
    by (simp add: unsaved_app_def initialApp_def full_storage_def)
  have c: "console unsaved_app = []"
    by (simp add: unsaved_app_def initialApp_def)
  from savePersistedState_failure
    [of "example_platform 0" "persistedState example_app" unsaved_app] h1 h2 c
  show ?thesis using h1 h2 by auto
qed

section \<open>Mutations without a view identifier\<close>

lemma addToSearchHistory_no_view:
  "noViewUUID (viewUUID a) \<Longrightarrow>
   \<exists>a'. addToSearchHistory toLowerCase env loc a = Inr a' \<and> localStorage a' = localStorage a \<and>
        viewUUID a' = viewUUID a"
  by (simp add: addToSearchHistory_def Let_def savePersistedState_cases)

lemma addToFavorites_no_view:
  "noViewUUID (viewUUID a) \<Longrightarrow>
   \<exists>a'. addToFavorites toLowerCase env loc lat lon a = Inr a' \<and> localStorage a' = localStorage a \<and>
        viewUUID a' = viewUUID a"
  by (simp add: addToFavorites_def Let_def savePersistedState_cases log_warn_def log_info_def)

lemma removeFromFavorites_no_view:
  "noViewUUID (viewUUID a) \<Longrightarrow>
   \<exists>a'. removeFromFavorites toLowerCase env loc a = Inr a' \<and> localStorage a' = localStorage a \<and>
        viewUUID a' = viewUUID a"
  by (simp add: removeFromFavorites_def Let_def savePersistedState_cases log_info_def)

lemma mutate_no_view:
  "noViewUUID (viewUUID a) \<Longrightarrow>
   \<exists>a'. mutate toLowerCase env m a = Inr a' \<and> localStorage a' = localStorage a \<and> viewUUID a' = viewUUID a"
  by (cases m) (simp_all add: addToSearchHistory_no_view addToFavorites_no_view
      removeFromFavorites_no_view)

lemma mutations_no_view:
  "noViewUUID (viewUUID a) \<Longrightarrow>
   \<exists>a'. mutations toLowerCase ms a = Inr a' \<and> localStorage a' = localStorage a \<and> viewUUID a' = viewUUID a"
proof (induction ms arbitrary: a)
  case Nil
  then show ?case by simp
next
  case (Cons c ms)
  obtain env m where c: "c = (env, m)" by (cases c)
  from Cons.prems obtain a1 where a1: "mutate toLowerCase env m a = Inr a1"
    "localStorage a1 = localStorage a" "viewUUID a1 = viewUUID a"
    using mutate_no_view by blast
  with Cons.prems have "noViewUUID (viewUUID a1)" by simp
  from Cons.IH [OF this] obtain a' where "mutations toLowerCase ms a1 = Inr a'"
    "localStorage a' = localStorage a1" "viewUUID a' = viewUUID a1" by blast
  with a1 c show ?case by simp
qed

lemma addToSearchHistory_in_memory:
  "\<exists>a'. addToSearchHistory toLowerCase env loc a = Inr a' \<and>
        (\<exists>rest. searchHistory (persistedState a') =
           \<lparr>location = loc, timestamp = Date_now env\<rparr> # rest)"
  by (simp add: addToSearchHistory_def Let_def savePersistedState_cases)

text \<open>
  C9. While \<open>viewUUID\<close> is \<open>null\<close>, \<open>loadPersistedState\<close> returns the default state
  (and logs nothing), \<open>savePersistedState\<close> changes nothing at all, and every sequence
  of history and favorite mutations returns normally with the storage exactly as it
  was and \<open>viewUUID\<close> still \<open>null\<close>: nothing done in that period reaches the storage.
  The mutations do take effect in memory: a search is at the head of the history
  after its call.
\<close>

theorem no_view_identifier_no_persistence:
  "viewUUID a = None \<Longrightarrow>
   loadPersistedState env (viewUUID a) (localStorage a) = Inr (defaultState, []) \<and>
   savePersistedState env st a = Inr a \<and>
   (\<exists>a'. mutations toLowerCase ms a = Inr a' \<and> localStorage a' = localStorage a \<and> viewUUID a' = None) \<and>
   (\<exists>a'. addToSearchHistory toLowerCase env loc a = Inr a' \<and> localStorage a' = localStorage a \<and>
         (\<exists>rest. searchHistory (persistedState a') =
            \<lparr>location = loc, timestamp = Date_now env\<rparr> # rest))"
proof -
  assume none: "viewUUID a = None"
  then have nv: "noViewUUID (viewUUID a)" by (simp add: noViewUUID_def)
  have "loadPersistedState env (viewUUID a) (localStorage a) = Inr (defaultState, [])"
    using nv by (simp add: loadPersistedState_def)
  moreover have "savePersistedState env st a = Inr a"
    using nv by (rule savePersistedState_no_view)
  moreover have "\<exists>a'. mutations toLowerCase ms a = Inr a' \<and> localStorage a' = localStorage a \<and>
                   viewUUID a' = None"
    using mutations_no_view [OF nv, of toLowerCase ms] none by auto
  moreover have "\<exists>a'. addToSearchHistory toLowerCase env loc a = Inr a' \<and> localStorage a' = localStorage a \<and>
         (\<exists>rest. searchHistory (persistedState a') =
            \<lparr>location = loc, timestamp = Date_now env\<rparr> # rest)"
    using addToSearchHistory_no_view [OF nv, of toLowerCase env loc]
      addToSearchHistory_in_memory [of toLowerCase env loc a]
    by auto
  ultimately show ?thesis by blast
qed

text \<open>
  The property at the initial state: a search, an added favorite and a removed
  favorite leave the storage as it was.
\<close>

theorem no_view_identifier_no_persistence_witness:
  "viewUUID (initialApp example_storage True) = None \<and>
   loadPersistedState (example_platform 1000) None example_storage = Inr (defaultState, []) \<and>
   savePersistedState (example_platform 1000) (persistedState example_app)
     (initialApp example_storage True) = Inr (initialApp example_storage True) \<and>
   (\<exists>a'. mutations example_toLowerCase example_mutations (initialApp example_storage True) = Inr a' \<and>
         localStorage a' = example_storage \<and> viewUUID a' = None) \<and>
   (\<exists>a'. addToSearchHistory example_toLowerCase (example_platform 1000) ''Paris'' (initialApp example_storage True)
           = Inr a' \<and>
         localStorage a' = example_storage \<and>
         (\<exists>rest. searchHistory (persistedState a') =
            \<lparr>location = ''Paris'', timestamp = 1000\<rparr> # rest))"
proof -
  have h: "viewUUID (initialApp example_storage True) = None"
    by (simp add: initialApp_def)
  have ls: "localStorage (initialApp example_storage True) = example_storage"
    by (simp add: initialApp_def)
  have t: "Date_now (example_platform 1000) = 1000"
    by (simp add: example_platform_def)
  from no_view_identifier_no_persistence [OF h, where env = "example_platform 1000"
      and st = "persistedState example_app" and toLowerCase = example_toLowerCase
      and ms = example_mutations and loc = "''Paris''"] h ls t
  show ?thesis by simp
qed

section \<open>Favorites match by lower-case form\<close>

lemma lower_examples:
  "example_toLowerCase ''Paris'' = ''paris''"
  "example_toLowerCase ''paris'' = ''paris''"
  "example_toLowerCase ''PARIS'' = ''paris''"
  "example_toLowerCase ''Tokyo'' = ''tokyo''"
  "example_toLowerCase ''London'' = ''london''"
  by (simp_all add: example_toLowerCase_def odos_capitals_def)

lemma lower_odos:
  "example_toLowerCase (concat odos_capitals) = concat odos_final"
  "example_toLowerCase (concat odos_small) = concat odos_small"
  by (simp_all add: example_toLowerCase_def odos_capitals_def odos_small_def odos_final_def)

lemma isFavorited_log [simp]:
  "isFavorited toLowerCase loc (logToHost env lvl msg dat a) = isFavorited toLowerCase loc a"
  by (simp add: isFavorited_def)

lemma addToFavorites_present:
  "isFavorited toLowerCase loc a \<Longrightarrow>
   addToFavorites toLowerCase env loc lat lon a =
     Inr (log_warn env ''Location already in favorites'' None a)"
  by (simp add: addToFavorites_def isFavorited_def Let_def)

lemma addToFavorites_absent:
  "\<not> isFavorited toLowerCase loc a \<Longrightarrow>
   \<exists>a'. addToFavorites toLowerCase env loc lat lon a = Inr a' \<and>
        favorites (persistedState a') = favorites (persistedState a) @
          [\<lparr>location = loc, latitude = lat, longitude = lon, addedAt = Date_now env\<rparr>]"
  by (simp add: addToFavorites_def isFavorited_def Let_def savePersistedState_cases log_info_def)

lemma addToFavorites_isFavorited:
  "\<exists>a'. addToFavorites toLowerCase env loc lat lon a = Inr a' \<and> isFavorited toLowerCase loc a'"
proof (cases "isFavorited toLowerCase loc a")
  case True
  then show ?thesis by (simp add: addToFavorites_present log_warn_def)
next
  case False
  from addToFavorites_absent [OF this, of env lat lon] obtain a' where
    "addToFavorites toLowerCase env loc lat lon a = Inr a'"
    "favorites (persistedState a') = favorites (persistedState a) @
          [\<lparr>location = loc, latitude = lat, longitude = lon, addedAt = Date_now env\<rparr>]" by blast
  then show ?thesis by (simp add: isFavorited_def)
qed

lemma isFavorited_case:
  "toLowerCase l1 = toLowerCase l2 \<Longrightarrow> isFavorited toLowerCase l1 a = isFavorited toLowerCase l2 a"
  by (simp add: isFavorited_def)

lemma odos_differ: "differ_only_in_case greek_letters odos_capitals odos_small"
  by (simp add: differ_only_in_case_def same_letter_def greek_letters_def odos_capitals_def
      odos_small_def)

lemma odos_addToFavorites:
  "addToFavorites example_toLowerCase (example_platform 1000) (concat odos_capitals)
     37.98 23.73 (initialApp example_storage True) = Inr odos_added"
  by (simp add: addToFavorites_def Let_def savePersistedState_cases noViewUUID_def
      initialApp_def odos_added_def example_platform_def)

lemma odos_not_favorited:
  "\<not> isFavorited example_toLowerCase (concat odos_small) odos_added"
proof -
  have "concat odos_final \<noteq> concat odos_small"
    by (simp add: odos_final_def odos_small_def)
  then show ?thesis
    by (simp add: isFavorited_def odos_added_def log_info_def lower_odos)
qed

text \<open>
  C5, as the claim states it, fails. The Greek word for street in capitals and in
  small letters are two strings that differ only in letter case. The lower-case form
  of the capitals ends in the final sigma, the small-letter spelling in the small
  sigma: after \<open>addToFavorites\<close> of the capitals on the initial state,
  \<open>isFavorited\<close> of the small letters is false.
\<close>

theorem addToFavorites_final_sigma_counterexample:
  "differ_only_in_case greek_letters odos_capitals odos_small \<and>
   example_toLowerCase (concat odos_capitals) = concat odos_final \<and>
   example_toLowerCase (concat odos_small) = concat odos_small \<and>
   concat odos_final \<noteq> concat odos_small \<and>
   addToFavorites example_toLowerCase (example_platform 1000) (concat odos_capitals)
     37.98 23.73 (initialApp example_storage True) = Inr odos_added \<and>
   \<not> isFavorited example_toLowerCase (concat odos_small) odos_added"
proof -
  have "concat odos_final \<noteq> concat odos_small"
    by (simp add: odos_final_def odos_small_def)
  with odos_differ lower_odos odos_addToFavorites odos_not_favorited show ?thesis by simp
qed

text \<open>
  C5, amended. When \<open>l1\<close> and \<open>l2\<close> have the same lower-case form,
  \<open>addToFavorites\<close> of \<open>l1\<close> returns normally and \<open>isFavorited\<close> of \<open>l2\<close> is true
  afterwards. When \<open>l1\<close> already has a match among the favorites (a favorite of the
  same lower-case form), \<open>addToFavorites\<close> returns normally with the persisted state
  and the storage unchanged, and what it emits is a warning: \<open>console.warn\<close> and a
  host log message of level warning (if the host cannot be reached, a console line
  about the failed send takes the place of that message).
\<close>

theorem addToFavorites_case_insensitive:
  "(toLowerCase l1 = toLowerCase l2 \<longrightarrow>
      (\<exists>a'. addToFavorites toLowerCase env l1 lat lon a = Inr a' \<and>
            isFavorited toLowerCase l2 a')) \<and>
   (isFavorited toLowerCase l1 a \<longrightarrow>
      (\<exists>a'. addToFavorites toLowerCase env l1 lat lon a = Inr a' \<and>
            persistedState a' = persistedState a \<and>
            localStorage a' = localStorage a \<and>
            console a' = console a @ (CWarn, ''[WEATHER-APP] Location already in favorites'')
              # (if hostConnected a then [] else [(CError, ''Failed to send log to host:'')]) \<and>
            hostLog a' = hostLog a @
              (if hostConnected a
               then [\<lparr>hl_level = LWarning, hl_data = ''Location already in favorites'',
                      hl_logger = ''weather-app''\<rparr>]
               else [])))"
proof (intro conjI impI)
  assume "toLowerCase l1 = toLowerCase l2"
  then show "\<exists>a'. addToFavorites toLowerCase env l1 lat lon a = Inr a' \<and>
                  isFavorited toLowerCase l2 a'"
    using addToFavorites_isFavorited [of toLowerCase env l1 lat lon a] isFavorited_case
    by blast
next
  assume "isFavorited toLowerCase l1 a"
  then have "addToFavorites toLowerCase env l1 lat lon a =
               Inr (log_warn env ''Location already in favorites'' None a)"
    by (rule addToFavorites_present)
  then show "\<exists>a'. addToFavorites toLowerCase env l1 lat lon a = Inr a' \<and>
            persistedState a' = persistedState a \<and>
            localStorage a' = localStorage a \<and>
            console a' = console a @ (CWarn, ''[WEATHER-APP] Location already in favorites'')
              # (if hostConnected a then [] else [(CError, ''Failed to send log to host:'')]) \<and>
            hostLog a' = hostLog a @
              (if hostConnected a
               then [\<lparr>hl_level = LWarning, hl_data = ''Location already in favorites'',
                      hl_logger = ''weather-app''\<rparr>]
               else [])"
    by (simp add: log_warn_def logToHost_console logToHost_hostLog consoleLevel_def)
qed

text \<open>
  The amended property at a state whose only favorite is \<open>paris\<close>: \<open>Paris\<close> and
  \<open>PARIS\<close> have the lower-case form \<open>paris\<close>, adding \<open>Paris\<close> is refused with a
  warning, and \<open>PARIS\<close> is a favorite afterwards.
\<close>

theorem addToFavorites_case_insensitive_witness:
  "example_toLowerCase ''Paris'' = example_toLowerCase ''PARIS'' \<and>
   isFavorited example_toLowerCase ''Paris'' example_app \<and>
   (\<exists>a'. addToFavorites example_toLowerCase (example_platform 1000) ''Paris'' 48.85 2.35
           example_app = Inr a' \<and>
         isFavorited example_toLowerCase ''PARIS'' a' \<and>
         persistedState a' = persistedState example_app \<and>
         localStorage a' = localStorage example_app \<and>
         console a' = [(CWarn, ''[WEATHER-APP] Location already in favorites'')] \<and>
         hostLog a' = [\<lparr>hl_level = LWarning, hl_data = ''Location already in favorites'',
                        hl_logger = ''weather-app''\<rparr>])"
proof -
  have h1: "example_toLowerCase ''Paris'' = example_toLowerCase ''PARIS''"
    by (simp add: lower_examples)
  have h2: "isFavorited example_toLowerCase ''Paris'' example_app"
    by (simp add: isFavorited_def example_app_def lower_examples)
  have c: "console example_app = []" "hostLog example_app = []" "hostConnected example_app"
    by (simp_all add: example_app_def initialApp_def)
  from addToFavorites_case_insensitive
    [of example_toLowerCase "''Paris''" "''PARIS''" "example_platform 1000" "48.85" "2.35"
        example_app]
    h1 h2 c
  show ?thesis by auto
qed

section \<open>The search history stays ordered, unique and short\<close>






















section \<open>Loading defaults field by field\<close>

lemma getProp_cases:
  "getProp v k =
     (case v of JNull \<Rightarrow> Inl TypeError | JObject kvs \<Rightarrow> Inr (map_of kvs k) | _ \<Rightarrow> Inr None)"
  by (cases v) simp_all

lemma loadPersistedState_total: "\<exists>st out. loadPersistedState env u ls = Inr (st, out)"
  by (simp add: loadPersistedState_def split: sum.splits)

lemma loadPersistedState_missing:
  "\<not> noViewUUID u \<Longrightarrow> readable ls \<Longrightarrow> items ls (storageKey (the u)) = None \<Longrightarrow>
   loadPersistedState env u ls = Inr (defaultState, [])"
  by (simp add: loadPersistedState_def loadTry_def getItem_def)

lemma loadPersistedState_parsed:
  assumes "\<not> noViewUUID u" and "readable ls" and "items ls (storageKey (the u)) = Some s"
    and "s \<noteq> []"
  shows "loadPersistedState env u ls =
     (case JSON_parse env s of
        Inl e \<Rightarrow> Inr (defaultState, [(CWarn, ''Failed to load persisted state:'')])
      | Inr JNull \<Rightarrow> Inr (defaultState, [(CWarn, ''Failed to load persisted state:'')])
      | Inr (JObject kvs) \<Rightarrow>
          Inr (\<lparr>favorites = arrayOrEmpty (map_of kvs ''favorites''),
                 searchHistory = arrayOrEmpty (map_of kvs ''searchHistory''),
                 lastLocation = map_of kvs ''lastLocation''\<rparr>, [])
      | Inr v \<Rightarrow> Inr (defaultState, []))"
  using assms
  by (simp add: loadPersistedState_def loadTry_def getItem_def getProp_cases defaultState_def
      split: sum.splits json.splits)

lemma arrayOrEmpty_not_array: "\<forall>ys. v \<noteq> Some (JArray ys) \<Longrightarrow> arrayOrEmpty v = []"
  by (cases v rule: arrayOrEmpty.cases) simp_all

lemma example_text_nonempty: "example_text \<noteq> []"
  by (simp add: example_text_def)

lemma example_load:
  "loadPersistedState (example_platform 0) (Some ''view-1'') example_storage =
     Inr (\<lparr>favorites = [],
            searchHistory = [JObject [(''location'', JString ''Paris''), (''timestamp'', JNumber 1)]],
            lastLocation = Some (JString ''Paris'')\<rparr>, [])"
  by (simp add: loadPersistedState_def loadTry_def noViewUUID_def getItem_def example_storage_def
      example_platform_def example_parse_def example_value_def storageKey_def
      example_text_nonempty)

text \<open>
  C1, as the claim states it, fails. The document stored for \<open>view-1\<close> parses, and its
  \<open>favorites\<close> is a string instead of an array. \<open>loadPersistedState\<close> returns \<open>[]\<close> for
  \<open>favorites\<close>, but the stored search history and the stored last location with it:
  not the default state.
\<close>

theorem loadPersistedState_wrong_shape_counterexample:
  "items example_storage (storageKey ''view-1'') = Some example_text \<and>
   JSON_parse (example_platform 0) example_text = Inr example_value \<and>
   getProp example_value ''favorites'' = Inr (Some (JString ''Oslo'')) \<and>
   loadPersistedState (example_platform 0) (Some ''view-1'') example_storage =
     Inr (\<lparr>favorites = [],
            searchHistory = [JObject [(''location'', JString ''Paris''), (''timestamp'', JNumber 1)]],
            lastLocation = Some (JString ''Paris'')\<rparr>, []) \<and>
   \<lparr>favorites = [],
    searchHistory = [JObject [(''location'', JString ''Paris''), (''timestamp'', JNumber 1)]],
    lastLocation = Some (JString ''Paris'')\<rparr> \<noteq> (defaultState :: stored_state)"
proof -
  have "items example_storage (storageKey ''view-1'') = Some example_text"
    by (simp add: example_storage_def storageKey_def)
  moreover have "JSON_parse (example_platform 0) example_text = Inr example_value"
    by (simp add: example_platform_def example_parse_def)
  moreover have "getProp example_value ''favorites'' = Inr (Some (JString ''Oslo''))"
    by (simp add: example_value_def)
  moreover have "\<lparr>favorites = [],
      searchHistory = [JObject [(''location'', JString ''Paris''), (''timestamp'', JNumber 1)]],
      lastLocation = Some (JString ''Paris'')\<rparr> \<noteq> (defaultState :: stored_state)"
    by (simp add: defaultState_def)
  ultimately show ?thesis using example_load by simp
qed

text \<open>
  C1, amended. \<open>loadPersistedState\<close> never raises. It returns the default state when
  nothing is stored for the view and when the stored text does not parse (then with a
  warning on the console). When the stored text parses to an object, each of
  \<open>favorites\<close> and \<open>searchHistory\<close> is returned as stored if it is an array and is
  replaced by \<open>[]\<close> otherwise, that field alone; \<open>lastLocation\<close> is returned as
  stored.
\<close>

theorem loadPersistedState_defaults:
  "(\<exists>st out. loadPersistedState env u ls = Inr (st, out)) \<and>
   (\<not> noViewUUID u \<and> readable ls \<and> items ls (storageKey (the u)) = None \<longrightarrow>
      loadPersistedState env u ls = Inr (defaultState, [])) \<and>
   (\<not> noViewUUID u \<and> readable ls \<and> items ls (storageKey (the u)) = Some s \<and> s \<noteq> [] \<and>
    JSON_parse env s = Inl e \<longrightarrow>
      loadPersistedState env u ls =
        Inr (defaultState, [(CWarn, ''Failed to load persisted state:'')])) \<and>
   (\<not> noViewUUID u \<and> readable ls \<and> items ls (storageKey (the u)) = Some s \<and> s \<noteq> [] \<and>
    JSON_parse env s = Inr (JObject kvs) \<longrightarrow>
      loadPersistedState env u ls =
        Inr (\<lparr>favorites = arrayOrEmpty (map_of kvs ''favorites''),
               searchHistory = arrayOrEmpty (map_of kvs ''searchHistory''),
               lastLocation = map_of kvs ''lastLocation''\<rparr>, [])) \<and>
   arrayOrEmpty (Some (JArray xs)) = xs \<and>
   ((\<forall>ys. v \<noteq> Some (JArray ys)) \<longrightarrow> arrayOrEmpty v = [])"
  using loadPersistedState_total [of env u ls] loadPersistedState_missing [of u ls env]
    loadPersistedState_parsed [of u ls s env] arrayOrEmpty_not_array [of v]
  by (auto simp del: not_None_eq)

text \<open>
  The amended property at the example storage: nothing stored for \<open>view-3\<close>, a text
  that does not parse for \<open>view-2\<close>, and the document with the string \<open>favorites\<close>
  for \<open>view-1\<close>.
\<close>

theorem loadPersistedState_defaults_witness:
  "\<not> noViewUUID (Some ''view-3'') \<and> readable example_storage \<and>
   items example_storage (storageKey (the (Some ''view-3''))) = None \<and>
   loadPersistedState (example_platform 0) (Some ''view-3'') example_storage =
     Inr (defaultState, []) \<and>
   items example_storage (storageKey (the (Some ''view-2''))) = Some ''{'' \<and>
   JSON_parse (example_platform 0) ''{'' = Inl SyntaxError \<and>
   loadPersistedState (example_platform 0) (Some ''view-2'') example_storage =
     Inr (defaultState, [(CWarn, ''Failed to load persisted state:'')]) \<and>
   items example_storage (storageKey (the (Some ''view-1''))) = Some example_text \<and>
   example_text \<noteq> [] \<and>
   JSON_parse (example_platform 0) example_text = Inr example_value \<and>
   arrayOrEmpty (Some (JString ''Oslo'')) = [] \<and>
   loadPersistedState (example_platform 0) (Some ''view-1'') example_storage =
     Inr (\<lparr>favorites = [],
            searchHistory = [JObject [(''location'', JString ''Paris''), (''timestamp'', JNumber 1)]],
            lastLocation = Some (JString ''Paris'')\<rparr>, [])"
proof -
  have v: "\<not> noViewUUID (Some ''view-1'')" "\<not> noViewUUID (Some ''view-2'')"
    "\<not> noViewUUID (Some ''view-3'')"
    by (simp_all add: noViewUUID_def)
  have r: "readable example_storage"
    by (simp add: example_storage_def)
  have i3: "items example_storage (storageKey (the (Some ''view-3''))) = None"
    by (simp add: example_storage_def storageKey_def)
  have i2: "items example_storage (storageKey (the (Some ''view-2''))) = Some ''{''"
    by (simp add: example_storage_def storageKey_def)
  have i1: "items example_storage (storageKey (the (Some ''view-1''))) = Some example_text"
    by (simp add: example_storage_def storageKey_def)
  have p2: "JSON_parse (example_platform 0) ''{'' = Inl SyntaxError"
    by (simp add: example_platform_def example_parse_def example_text_def)
  have p1: "JSON_parse (example_platform 0) example_text =
              Inr (JObject [(''favorites'', JString ''Oslo''),
                (''searchHistory'',
                   JArray [JObject [(''location'', JString ''Paris''), (''timestamp'', JNumber 1)]]),
                (''lastLocation'', JString ''Paris'')])"
    by (simp add: example_platform_def example_parse_def example_value_def)
  have a: "arrayOrEmpty (Some (JString ''Oslo'')) = []"
    using loadPersistedState_defaults [where v = "Some (JString ''Oslo'')"] by simp
  have l3: "loadPersistedState (example_platform 0) (Some ''view-3'') example_storage =
     Inr (defaultState, [])"
    using loadPersistedState_defaults [of "example_platform 0" "Some ''view-3''" example_storage]
      v r i3 by blast
  have l2: "loadPersistedState (example_platform 0) (Some ''view-2'') example_storage =
     Inr (defaultState, [(CWarn, ''Failed to load persisted state:'')])"
    using loadPersistedState_defaults [of "example_platform 0" "Some ''view-2''" example_storage
        "''{''" SyntaxError] v r i2 p2 by simp
  have l1: "loadPersistedState (example_platform 0) (Some ''view-1'') example_storage =
     Inr (\<lparr>favorites = [],
            searchHistory = [JObject [(''location'', JString ''Paris''), (''timestamp'', JNumber 1)]],
            lastLocation = Some (JString ''Paris'')\<rparr>, [])"
    using loadPersistedState_defaults [of "example_platform 0" "Some ''view-1''" example_storage
        example_text _ "[(''favorites'', JString ''Oslo''),
                (''searchHistory'',
                   JArray [JObject [(''location'', JString ''Paris''), (''timestamp'', JNumber 1)]]),
                (''lastLocation'', JString ''Paris'')]"]
      v r i1 p1 example_text_nonempty a by simp
  from p1 have p1': "JSON_parse (example_platform 0) example_text = Inr example_value"
    by (simp add: example_value_def)
  show ?thesis
    using v r i3 i2 i1 p2 p1' l3 l2 l1 a example_text_nonempty by simp
qed

section \<open>Leaving comparison mode\<close>

lemma removeFirst_first:
  "loc \<notin> set xs \<Longrightarrow> removeFirst loc (xs @ loc # ys) = xs @ ys"
  by (induction xs) auto

lemma removeLocation_of_two:
  assumes "length cs = 2" and "loc \<in> set cs"
  shows "\<exists>x. removeFirst loc cs = [x] \<and> removeLocation loc cs = SingleLocation x"
proof -
  from assms(1) obtain a b where cs: "cs = [a, b]"
    by (cases cs; cases "tl cs") auto
  with assms(2) show ?thesis
    by (auto simp: removeLocation_def)
qed

text \<open>
  C8. For a comparison set of length 2, \<open>removeLocation\<close> of one of its entries
  leaves the single-location view of the entry that remains, not a comparison grid
  of one element; and the entry removed is the first one that matches, by position.
\<close>

theorem removeLocation_leaves_single_view:
  "(length cs = 2 \<and> loc \<in> set cs \<longrightarrow>
      (\<exists>x. removeFirst loc cs = [x] \<and> removeLocation loc cs = SingleLocation x)) \<and>
   removeLocation x [x, y] = SingleLocation y \<and>
   (y \<noteq> x \<longrightarrow> removeLocation y [x, y] = SingleLocation x) \<and>
   (loc \<notin> set xs \<longrightarrow> removeFirst loc (xs @ loc # ys) = xs @ ys)"
  using removeLocation_of_two [of cs loc] removeFirst_first [of loc xs ys]
  by (simp add: removeLocation_def)

text \<open>The property for Tokyo and Paris, and for a set that shows Paris twice.\<close>

theorem removeLocation_leaves_single_view_witness:
  "length [''Tokyo'', ''Paris''] = 2 \<and> ''Tokyo'' \<in> set [''Tokyo'', ''Paris''] \<and>
   removeLocation ''Tokyo'' [''Tokyo'', ''Paris''] = SingleLocation ''Paris'' \<and>
   ''Paris'' \<noteq> ''Tokyo'' \<and>
   removeLocation ''Paris'' [''Tokyo'', ''Paris''] = SingleLocation ''Tokyo'' \<and>
   ''Paris'' \<notin> set [''Tokyo''] \<and>
   removeFirst ''Paris'' ([''Tokyo''] @ ''Paris'' # [''London'', ''Paris'']) =
     [''Tokyo''] @ [''London'', ''Paris'']"
  using removeLocation_leaves_single_view
    [of "[''Tokyo'', ''Paris'']" "''Paris''" "''Tokyo''" "''Paris''" "[''Tokyo'']"
        "[''London'', ''Paris'']"]
  by simp

section \<open>Timers of the insight stream\<close>

lemma setTimeout_frame [simp]:
  "app (setTimeout u i n m d p) = app p"
  "modals (setTimeout u i n m d p) = modals p"
  "clock (setTimeout u i n m d p) = clock p"
  by (simp_all add: setTimeout_def)

lemma armAll_frame [simp]:
  "app (armAll us i n m p) = app p"
  "modals (armAll us i n m p) = modals p"
  "clock (armAll us i n m p) = clock p"
  by (induction us arbitrary: i p) simp_all

lemma armAll_timers:
  "timers (armAll us i n m p) =
     timers p @ map (\<lambda>(k, u). \<lparr>due = clock p + delay u, t_update = u, t_index = k,
                               t_total = n, t_modal = m\<rparr>) (enumerate i us)"
  by (induction us arbitrary: i p) (simp_all add: setTimeout_def)

lemma displayProgressiveInsights_timers:
  "timers (displayProgressiveInsights env sid us n p) =
     timers p @ map (\<lambda>(k, u). \<lparr>due = clock p + delay u, t_update = u, t_index = k,
                               t_total = n, t_modal = firstAttached (modals p @
                 [\<lparr>attached = True, streamPhases = [], progressText = Initializing\<rparr>])\<rparr>)
                (enumerate 0 us)"
  by (simp add: displayProgressiveInsights_def Let_def armAll_timers)

lemma displayProgressiveInsights_clock:
  "clock (displayProgressiveInsights env sid us n p) = clock p"
  by (simp add: displayProgressiveInsights_def Let_def)

lemma phaseHandler_frame [simp]:
  "timers (phaseHandler env tm p) = timers p"
  "clock (phaseHandler env tm p) = clock p"
  by (simp_all add: phaseHandler_def Let_def)

lemma fold_phaseHandler_frame [simp]:
  "timers (fold (phaseHandler env) tms p) = timers p"
  "clock (fold (phaseHandler env) tms p) = clock p"
  by (induction tms arbitrary: p) simp_all

lemma advance_timers:
  "timers (advance env t p) = filter (\<lambda>tm. t < due tm) (timers p)"
  by (simp add: advance_def Let_def not_le)

lemma closeModal_frame [simp]:
  "app (closeModal i p) = app p"
  "timers (closeModal i p) = timers p"
  "clock (closeModal i p) = clock p"
  by (simp_all add: closeModal_def)
















text \<open>
  C6. \<open>displayProgressiveInsights\<close> arms one timer per update of the list it
  received, in the order of the list, without the clock moving: the timer of update
  \<open>u\<close> is due at the time of the call plus \<open>u\<close>'s own delay, whatever the other
  delays are. Each timer fires once: the event loop up to time \<open>t\<close> leaves pending
  exactly the timers that are due after \<open>t\<close>.
\<close>

theorem displayProgressiveInsights_arms_timers:
  "timers (displayProgressiveInsights env sid us n p) =
     timers p @ map (\<lambda>(k, u). \<lparr>due = clock p + delay u, t_update = u, t_index = k,
                               t_total = n, t_modal = firstAttached (modals p @
                 [\<lparr>attached = True, streamPhases = [], progressText = Initializing\<rparr>])\<rparr>)
                (enumerate 0 us) \<and>
   clock (displayProgressiveInsights env sid us n p) = clock p \<and>
   timers (advance env t q) = filter (\<lambda>tm. t < due tm) (timers q)"
  by (simp add: displayProgressiveInsights_timers displayProgressiveInsights_clock advance_timers)

text \<open>The property for the five phases started at time 0.\<close>

theorem displayProgressiveInsights_arms_timers_witness:
  "map due (timers stream_started) = [1000, 2000, 3000, 4000, 5000] \<and>
   map t_index (timers stream_started) = [0, 1, 2, 3, 4] \<and>
   clock stream_started = 0 \<and>
   map due (timers (advance (example_platform 0) 2500 stream_started)) = [3000, 4000, 5000]"
proof -
  note t = displayProgressiveInsights_arms_timers
    [of "example_platform 0" "''stream-1''" five_updates 5
        "initialPage (initialApp example_storage True)" 2500 stream_started]
  have a: "timers stream_started =
     timers (initialPage (initialApp example_storage True)) @
     map (\<lambda>(k, u). \<lparr>due = clock (initialPage (initialApp example_storage True)) + delay u,
                      t_update = u, t_index = k, t_total = 5,
                      t_modal = firstAttached (modals (initialPage (initialApp example_storage True)) @
                 [\<lparr>attached = True, streamPhases = [], progressText = Initializing\<rparr>])\<rparr>)
         (enumerate 0 five_updates)"
    unfolding stream_started_def using t by blast
  have b: "clock stream_started = clock (initialPage (initialApp example_storage True))"
    unfolding stream_started_def using t by blast
  have c: "timers (advance (example_platform 0) 2500 stream_started) =
             filter (\<lambda>tm. 2500 < due tm) (timers stream_started)"
    using t by blast
  have d: "map due (timers stream_started) = [1000, 2000, 3000, 4000, 5000]"
    by (simp add: a five_updates_def initialPage_def enumerate_eq_zip upt_rec)
  have e: "map t_index (timers stream_started) = [0, 1, 2, 3, 4]"
    by (simp add: a five_updates_def initialPage_def enumerate_eq_zip upt_rec)
  have f: "clock stream_started = 0"
    by (simp add: b initialPage_def)
  have g: "map due (timers (advance (example_platform 0) 2500 stream_started)) = [3000, 4000, 5000]"
    by (simp add: c a five_updates_def initialPage_def enumerate_eq_zip upt_rec)
  from d e f g show ?thesis by simp
qed

end
